theory Spec2Isabelle
  imports Complex_Main
begin

section \<open>courierInfo: coordinate validation and row accumulation\<close>

text \<open>
  A shallow embedding of \<^verbatim>\<open>src/main.go\<close> (the first of the two program versions in
  the file, the one with the named boundary constants): \<^verbatim>\<open>getLatLong\<close> and
  \<^verbatim>\<open>markLocations\<close>, together with the library functions they call.
\<close>

subsection \<open>float64\<close>

text \<open>
  A \<^verbatim>\<open>float64\<close> is NaN, one of the two infinities, or a finite binary64 number, kept
  as its exact rational value. The program only compares floats and passes them on, so
  the sign of zero is not represented. Comparisons are those of IEEE 754: every
  comparison with NaN is false.
\<close>

datatype float64 = NaN | PInf | NInf | Finite rat

fun flt :: "float64 \<Rightarrow> float64 \<Rightarrow> bool" where
  "flt NaN _ = False"
| "flt _ NaN = False"
| "flt (Finite a) (Finite b) = (a < b)"
| "flt (Finite _) PInf = True"
| "flt NInf (Finite _) = True"
| "flt NInf PInf = True"
| "flt _ _ = False"

fun fle :: "float64 \<Rightarrow> float64 \<Rightarrow> bool" where
  "fle NaN _ = False"
| "fle _ NaN = False"
| "fle (Finite a) (Finite b) = (a \<le> b)"
| "fle NInf _ = True"
| "fle _ PInf = True"
| "fle _ _ = False"

fun is_finite :: "float64 \<Rightarrow> bool" where
  "is_finite (Finite _) = True"
| "is_finite _ = False"

text \<open>
  Rounding the ratio \<open>n / d\<close> (with \<open>d > 0\<close>) to binary64, to nearest with ties to
  even: the conversion Go applies to an untyped constant used as a \<^verbatim>\<open>float64\<close> and
  that \<^verbatim>\<open>strconv.ParseFloat\<close> applies to a decimal literal. \<open>bit_len n\<close> is the number
  of binary digits of \<open>n\<close>; \<open>bin_exp a d\<close> is the binary exponent \<open>e\<close> of \<open>a / d\<close>
  (\<open>2^e \<le> a / d < 2^(e+1)\<close>); \<open>round_div\<close> rounds a quotient to the nearest integer,
  ties to even; \<open>2^k\<close> is the spacing of the doubles at the magnitude (that of the
  subnormals below \<open>2^(-1022)\<close>) and \<open>m\<close> the magnitude in units of \<open>2^k\<close>.
  A magnitude that rounds to \<open>2^1024\<close> or more becomes an infinity.
\<close>

fun bit_len :: "nat \<Rightarrow> nat" where
  "bit_len n = (if n = 0 then 0 else Suc (bit_len (n div 2)))"

declare bit_len.simps [simp del]

definition pow2 :: "int \<Rightarrow> rat" where
  "pow2 k = (if 0 \<le> k then 2 ^ nat k else 1 / 2 ^ nat (- k))"

definition bin_exp :: "int \<Rightarrow> int \<Rightarrow> int" where
  "bin_exp a d =
     (let e0 = int (bit_len (nat a)) - int (bit_len (nat d))
      in if d * 2 ^ nat e0 \<le> a * 2 ^ nat (- e0) then e0 else e0 - 1)"

definition round_div :: "int \<Rightarrow> int \<Rightarrow> int" where
  "round_div num den =
     (let f = num div den; r = num mod den
      in if 2 * r < den then f
         else if den < 2 * r then f + 1
         else if even f then f else f + 1)"

definition float64_of_ratio :: "int \<Rightarrow> int \<Rightarrow> float64" where
  "float64_of_ratio n d =
     (if n = 0 then Finite 0
      else
        let k = max (bin_exp \<bar>n\<bar> d) (- 1022) - 52;
            m = round_div (\<bar>n\<bar> * 2 ^ nat (- k)) (d * 2 ^ nat k);
            v = of_int m * pow2 k
        in if pow2 1024 \<le> v then (if n < 0 then NInf else PInf)
           else Finite (if n < 0 then - v else v))"

subsection \<open>Boundary points and errors\<close>

definition SouthernmostPoint :: float64 where
  "SouthernmostPoint = float64_of_ratio 94972778 1000000"

definition NorthernmostPoint :: float64 where
  "NorthernmostPoint = float64_of_ratio 141019444 1000000"

definition WesternmostPoint :: float64 where
  "WesternmostPoint = float64_of_ratio 6075 1000"

definition EasternmostPoint :: float64 where
  "EasternmostPoint = float64_of_ratio (- 110075) 10000"

text \<open>
  The error values of the program. \<open>NumError\<close> is the \<^verbatim>\<open>*strconv.NumError\<close> that
  \<^verbatim>\<open>ParseFloat\<close> returns, with its cause; \<open>OSError\<close> stands for any error of
  \<^verbatim>\<open>filepath.Abs\<close> or \<^verbatim>\<open>os.Open\<close>.
\<close>

datatype num_error = ErrSyntax | ErrRange

datatype error = ErrLatLong | ErrLatLongOutOfRange | ErrBadInput
  | NumError num_error | OSError

subsection \<open>Library functions: strings.Split, strings.TrimSpace\<close>

text \<open>
  \<^verbatim>\<open>strings.Split(s, sep)\<close> for a separator of one byte: the pieces of \<open>s\<close> between
  the occurrences of the separator, so one more piece than there are separators; the
  empty string gives one empty piece.
\<close>

fun Split :: "string \<Rightarrow> char \<Rightarrow> string list" where
  "Split [] sep = [[]]"
| "Split (c # s) sep =
     (if c = sep then [] # Split s sep
      else (case Split s sep of [] \<Rightarrow> [[c]] | p # ps \<Rightarrow> (c # p) # ps))"

text \<open>
  \<^verbatim>\<open>strings.TrimSpace\<close> removes the leading and trailing white space, as defined by
  Unicode (\<^verbatim>\<open>unicode.IsSpace\<close>). A Go string is a sequence of bytes holding UTF-8,
  so the white-space code points are listed by their encodings: the six ASCII ones,
  U+0085, U+00A0, U+1680, U+2000 to U+200A, U+2028, U+2029, U+202F, U+205F, U+3000.
\<close>

definition space_runes :: "string list" where
  "space_runes =
     [[CHR 0x09], [CHR 0x0A], [CHR 0x0B], [CHR 0x0C], [CHR 0x0D], [CHR 0x20],
      [CHR 0xC2, CHR 0x85], [CHR 0xC2, CHR 0xA0],
      [CHR 0xE1, CHR 0x9A, CHR 0x80],
      [CHR 0xE2, CHR 0x80, CHR 0x80], [CHR 0xE2, CHR 0x80, CHR 0x81],
      [CHR 0xE2, CHR 0x80, CHR 0x82], [CHR 0xE2, CHR 0x80, CHR 0x83],
      [CHR 0xE2, CHR 0x80, CHR 0x84], [CHR 0xE2, CHR 0x80, CHR 0x85],
      [CHR 0xE2, CHR 0x80, CHR 0x86], [CHR 0xE2, CHR 0x80, CHR 0x87],
      [CHR 0xE2, CHR 0x80, CHR 0x88], [CHR 0xE2, CHR 0x80, CHR 0x89],
      [CHR 0xE2, CHR 0x80, CHR 0x8A],
      [CHR 0xE2, CHR 0x80, CHR 0xA8], [CHR 0xE2, CHR 0x80, CHR 0xA9],
      [CHR 0xE2, CHR 0x80, CHR 0xAF],
      [CHR 0xE2, CHR 0x81, CHR 0x9F],
      [CHR 0xE3, CHR 0x80, CHR 0x80]]"

definition starts_with :: "string \<Rightarrow> string \<Rightarrow> bool" where
  "starts_with s r = (take (length r) s = r)"

definition lead_len :: "string list \<Rightarrow> string \<Rightarrow> nat" where
  "lead_len rs s = (case filter (starts_with s) rs of [] \<Rightarrow> 0 | r # _ \<Rightarrow> length r)"

function trim_lead :: "string list \<Rightarrow> string \<Rightarrow> string" where
  "trim_lead rs s =
     (if lead_len rs s = 0 then s else trim_lead rs (drop (lead_len rs s) s))"
  by pat_completeness auto
termination
proof (relation "measure (\<lambda>(rs, s). length s)")
  show "wf (measure (\<lambda>(rs, s). length s))" by simp
next
  fix rs :: "string list" and s :: string
  assume n: "lead_len rs s \<noteq> 0"
  then obtain r ys where f: "filter (starts_with s) rs = r # ys" and r: "length r \<noteq> 0"
    by (auto simp: lead_len_def split: list.splits)
  from f have "r \<in> set (filter (starts_with s) rs)" by simp
  then have "starts_with s r" by simp
  with r have "s \<noteq> []" by (auto simp: starts_with_def)
  with n show "((rs, drop (lead_len rs s) s), (rs, s)) \<in> measure (\<lambda>(rs, s). length s)"
    by simp
qed

declare trim_lead.simps [simp del]

definition TrimSpace :: "string \<Rightarrow> string" where
  "TrimSpace s = rev (trim_lead (map rev space_runes) (rev (trim_lead space_runes s)))"

subsection \<open>Library function: strconv.ParseFloat\<close>

text \<open>
  \<^verbatim>\<open>strconv.ParseFloat(s, 64)\<close> is library code; \<open>getLatLong\<close> below takes it as the
  parameter \<open>pf\<close>, and the general theorems hold for every such function. For closed
  instances, \<open>ParseFloat\<close> gives the library's results on the special values (\<^verbatim>\<open>nan\<close>;
  \<^verbatim>\<open>inf\<close> and \<^verbatim>\<open>infinity\<close> with an optional sign; letters in either case) and on
  plain decimal literals (an optional sign, digits with an optional point, at least one
  digit), rounded to the nearest binary64, with \<open>ErrRange\<close> on overflow. The further
  forms the library accepts (an exponent, hexadecimal literals, underscores between
  digits) are outside this definition, which answers \<open>ErrSyntax\<close> for them.
\<close>

definition lower :: "char \<Rightarrow> char" where
  "lower c =
     (case map_of (zip ''ABCDEFGHIJKLMNOPQRSTUVWXYZ'' ''abcdefghijklmnopqrstuvwxyz'') c of
        None \<Rightarrow> c
      | Some l \<Rightarrow> l)"

definition is_digit :: "char \<Rightarrow> bool" where
  "is_digit c \<longleftrightarrow> (48::nat) \<le> of_char c \<and> of_char c \<le> (57::nat)"

definition digits_val :: "string \<Rightarrow> nat" where
  "digits_val ds = foldl (\<lambda>a c. 10 * a + (of_char c - 48)) 0 ds"

definition dec_literal :: "string \<Rightarrow> (nat \<times> nat) option" where
  "dec_literal b =
     (let ip = takeWhile is_digit b; r = dropWhile is_digit b
      in case r of
           [] \<Rightarrow> if ip = [] then None else Some (digits_val ip, 1)
         | c # fp \<Rightarrow>
             if c = CHR ''.'' \<and> list_all is_digit fp \<and> ip @ fp \<noteq> []
             then Some (digits_val (ip @ fp), 10 ^ length fp)
             else None)"

definition ParseFloat :: "string \<Rightarrow> num_error + float64" where
  "ParseFloat s =
     (if map lower s = ''nan'' then Inr NaN
      else
        let (neg, b) =
              (case s of
                 [] \<Rightarrow> (False, s)
               | c # t \<Rightarrow>
                   if c = CHR ''+'' then (False, t)
                   else if c = CHR ''-'' then (True, t) else (False, s))
        in if map lower b = ''inf'' \<or> map lower b = ''infinity''
           then Inr (if neg then NInf else PInf)
           else (case dec_literal b of
                   None \<Rightarrow> Inl ErrSyntax
                 | Some (n, d) \<Rightarrow>
                     (case float64_of_ratio (if neg then - int n else int n) (int d) of
                        Finite v \<Rightarrow> Inr (Finite v)
                      | _ \<Rightarrow> Inl ErrRange)))"

subsection \<open>getLatLong\<close>

text \<open>
  \<^verbatim>\<open>getLatLong\<close> (lines 137 to 164). The Go function returns \<^verbatim>\<open>(0, 0, err)\<close> on
  failure and \<^verbatim>\<open>(x, y, nil)\<close> on success: the error is \<open>Inl\<close>, the pair \<open>Inr\<close>.
\<close>

definition getLatLong ::
  "(string \<Rightarrow> num_error + float64) \<Rightarrow> string \<Rightarrow> error + (float64 \<times> float64)" where
  "getLatLong pf latlong =
     (if latlong = [] \<or> latlong = '','' \<or> latlong = ''-999,-999'' then Inl ErrLatLong
      else
        let xy = Split latlong CHR '',''
        in if length xy \<noteq> 2 then Inl ErrLatLong
           else
             (case pf (TrimSpace (xy ! 0)) of
                Inl e \<Rightarrow> Inl (NumError e)
              | Inr x \<Rightarrow>
                  (case pf (TrimSpace (xy ! 1)) of
                     Inl e \<Rightarrow> Inl (NumError e)
                   | Inr y \<Rightarrow>
                       if flt y SouthernmostPoint \<or> flt NorthernmostPoint y
                          \<or> flt WesternmostPoint x \<or> flt x EasternmostPoint
                       then Inl ErrLatLongOutOfRange
                       else Inr (x, y))))"

subsection \<open>The rendering context\<close>

text \<open>
  The map library is an opaque collaborator: a context records its size and, in the
  order of the calls, the markers and paths added to it. \<open>LatLngFromDegrees\<close>,
  \<open>NewMarker\<close> and \<open>NewPath\<close> are its constructors, kept uninterpreted. The size a new
  context has before \<^verbatim>\<open>SetSize\<close> is the library's default; it is written as \<open>0\<close> here,
  since the program overwrites it at once.
\<close>

datatype LatLng = LatLngFromDegrees float64 float64

datatype RGBA = RGBA nat nat nat nat

datatype Marker = NewMarker LatLng RGBA float64

datatype Path = NewPath "LatLng list" RGBA float64

record Context =
  width :: nat
  height :: nat
  markers :: "Marker list"
  paths :: "Path list"

definition NewContext :: Context where
  "NewContext = \<lparr>width = 0, height = 0, markers = [], paths = []\<rparr>"

definition SetSize :: "nat \<Rightarrow> nat \<Rightarrow> Context \<Rightarrow> Context" where
  "SetSize w h c = c\<lparr>width := w, height := h\<rparr>"

definition AddMarker :: "Marker \<Rightarrow> Context \<Rightarrow> Context" where
  "AddMarker m c = c\<lparr>markers := markers c @ [m]\<rparr>"

definition AddPath :: "Path \<Rightarrow> Context \<Rightarrow> Context" where
  "AddPath p c = c\<lparr>paths := paths c @ [p]\<rparr>"

subsection \<open>markLocations\<close>

text \<open>
  Indexing a slice panics out of range: \<open>index\<close> answers \<open>None\<close> there.
\<close>

definition index :: "'a list \<Rightarrow> nat \<Rightarrow> 'a option" where
  "index xs i = (if i < length xs then Some (xs ! i) else None)"

text \<open>
  The body of the branch at lines 109 to 130, for one record: \<open>None\<close> is the
  index-out-of-range panic of \<^verbatim>\<open>record[9]\<close> or \<^verbatim>\<open>record[12]\<close>; each
  \<^verbatim>\<open>continue\<close> after a failed \<open>getLatLong\<close> leaves the context as it was.
\<close>

definition row_body ::
  "(string \<Rightarrow> num_error + float64) \<Rightarrow> string \<Rightarrow> string list \<Rightarrow> Context \<Rightarrow> Context option"
  where
  "row_body pf mode record c =
     (case index record 9 of
        None \<Rightarrow> None
      | Some f9 \<Rightarrow>
          (case getLatLong pf f9 of
             Inl err \<Rightarrow> Some c
           | Inr (x1, y1) \<Rightarrow>
               (case index record 12 of
                  None \<Rightarrow> None
                | Some f12 \<Rightarrow>
                    (case getLatLong pf f12 of
                       Inl err \<Rightarrow> Some c
                     | Inr (x2, y2) \<Rightarrow>
                         let c1 = AddMarker
                                    (NewMarker (LatLngFromDegrees x1 y1) (RGBA 0 255 0 255)
                                       (Finite 4)) c;
                             c2 = AddMarker
                                    (NewMarker (LatLngFromDegrees x2 y2) (RGBA 255 0 0 255)
                                       (Finite 4)) c1
                         in Some
                              (if mode = ''line''
                               then AddPath
                                      (NewPath
                                         [LatLngFromDegrees x1 y1, LatLngFromDegrees x2 y2]
                                         (RGBA 0 0 0 255) (Finite 1)) c2
                               else c2)))))"

text \<open>
  The state of the loop: the context, the program variable \<^verbatim>\<open>rowCount\<close>, and the
  ghost counter \<open>examined\<close>, which is not a variable of the program: it counts the
  entries into the branch at line 109, that is the records handed to marker extraction.
  A run either returns the state with an optional error, or panics; the state reached
  at the panic is kept for the ghost counter.
\<close>

record acc =
  ctx :: Context
  rowCount :: int
  examined :: nat

datatype outcome = Panic acc | Return acc "error option"

fun final :: "outcome \<Rightarrow> acc" where
  "final (Panic a) = a"
| "final (Return a e) = a"

text \<open>
  The loop of lines 100 to 131 over the records that \<^verbatim>\<open>reader.Read\<close> yields before
  \<^verbatim>\<open>io.EOF\<close>. The program ignores every other error of \<^verbatim>\<open>Read\<close> and uses the
  record returned with it (possibly empty), so a record is just a list of fields.
  \<^verbatim>\<open>rowCount\<close> is a Go \<^verbatim>\<open>int\<close> (64 bits); a file cannot hold enough records to
  overflow it, and it is an unbounded integer here.
\<close>

fun rows_loop ::
  "(string \<Rightarrow> num_error + float64) \<Rightarrow> int \<Rightarrow> string \<Rightarrow> acc \<Rightarrow> string list list \<Rightarrow> outcome"
  where
  "rows_loop pf limit mode a [] = Return a None"
| "rows_loop pf limit mode a (record # rest) =
     (let a1 = a\<lparr>rowCount := rowCount a + 1\<rparr>
      in if rowCount a1 = 0 then rows_loop pf limit mode a1 rest
         else if limit = 0 \<or> rowCount a1 < limit then
           (case row_body pf mode record (ctx a1) of
              None \<Rightarrow> Panic (a1\<lparr>examined := Suc (examined a1)\<rparr>)
            | Some c \<Rightarrow>
                rows_loop pf limit mode (a1\<lparr>ctx := c, examined := Suc (examined a1)\<rparr>) rest)
         else rows_loop pf limit mode a1 rest)"

text \<open>
  What the file system answers for the file name: \<^verbatim>\<open>filepath.Abs\<close> fails, the path
  is a directory, \<^verbatim>\<open>os.Open\<close> fails, or the file opens and the reader yields the
  given records.
\<close>

datatype input_file = AbsFails | IsDir | OpenFails | Records "string list list"

definition markLocations ::
  "(string \<Rightarrow> num_error + float64) \<Rightarrow> int \<Rightarrow> input_file \<Rightarrow> string \<Rightarrow> outcome" where
  "markLocations pf limit file mode =
     (let c = SetSize 600 400 NewContext
      in case file of
           AbsFails \<Rightarrow> Return \<lparr>ctx = c, rowCount = 0, examined = 0\<rparr> (Some OSError)
         | IsDir \<Rightarrow> Return \<lparr>ctx = c, rowCount = 0, examined = 0\<rparr> (Some ErrBadInput)
         | OpenFails \<Rightarrow> Return \<lparr>ctx = c, rowCount = 0, examined = 0\<rparr> (Some OSError)
         | Records rows \<Rightarrow>
             rows_loop pf limit mode \<lparr>ctx = c, rowCount = - 1, examined = 0\<rparr> rows)"

section \<open>Properties\<close>

subsection \<open>Values of the constants and of the library functions\<close>

lemma SouthernmostPoint_value:
  "SouthernmostPoint = Finite (1670778779731019 / 17592186044416)"
proof -
  have "bin_exp 94972778 1000000 = 6"
    by (simp add: bin_exp_def bit_len.simps)
  then show ?thesis
    by (simp add: SouthernmostPoint_def float64_of_ratio_def round_div_def pow2_def Let_def)
qed

lemma NorthernmostPoint_value:
  "NorthernmostPoint = Finite (4961680589456207 / 35184372088832)"
proof -
  have "bin_exp 141019444 1000000 = 7"
    by (simp add: bin_exp_def bit_len.simps)
  then show ?thesis
    by (simp add: NorthernmostPoint_def float64_of_ratio_def round_div_def pow2_def Let_def)
qed

lemma WesternmostPoint_value:
  "WesternmostPoint = Finite (6839841934068941 / 1125899906842624)"
proof -
  have "bin_exp 6075 1000 = 2"
    by (simp add: bin_exp_def bit_len.simps)
  then show ?thesis
    by (simp add: WesternmostPoint_def float64_of_ratio_def round_div_def pow2_def Let_def)
qed

lemma EasternmostPoint_value:
  "EasternmostPoint = Finite (- (1549167903071273 / 140737488355328))"
proof -
  have "bin_exp 110075 10000 = 3"
    by (simp add: bin_exp_def bit_len.simps)
  then show ?thesis
    by (simp add: EasternmostPoint_def float64_of_ratio_def round_div_def pow2_def Let_def)
qed

lemmas bounds_value =
  SouthernmostPoint_value NorthernmostPoint_value WesternmostPoint_value
  EasternmostPoint_value

lemma TrimSpace_plain [simp]:
  "TrimSpace ''-999'' = ''-999''" "TrimSpace '' -999'' = ''-999''"
  "TrimSpace ''NaN'' = ''NaN''" "TrimSpace ''1.5'' = ''1.5''"
  "TrimSpace ''100.5'' = ''100.5''" "TrimSpace [] = []"
  by (simp_all add: TrimSpace_def trim_lead.simps lead_len_def starts_with_def
      space_runes_def)

lemma ParseFloat_NaN: "ParseFloat ''NaN'' = Inr NaN"
  by (simp add: ParseFloat_def lower_def)

lemma ParseFloat_empty: "ParseFloat [] = Inl ErrSyntax"
  by (simp add: ParseFloat_def dec_literal_def)

lemma ParseFloat_sentinel: "ParseFloat ''-999'' = Inr (Finite (- 999))"
proof -
  have d: "dec_literal ''999'' = Some (999, 1)"
    by (simp add: dec_literal_def is_digit_def digits_val_def)
  have "bin_exp 999 1 = 9"
    by (simp add: bin_exp_def bit_len.simps)
  then have "float64_of_ratio (- 999) 1 = Finite (- 999)"
    by (simp add: float64_of_ratio_def round_div_def pow2_def Let_def)
  with d show ?thesis
    by (simp add: ParseFloat_def lower_def)
qed

lemma ParseFloat_x: "ParseFloat ''1.5'' = Inr (Finite (3 / 2))"
proof -
  have d: "dec_literal ''1.5'' = Some (15, 10)"
    by (simp add: dec_literal_def is_digit_def digits_val_def)
  have "bin_exp 15 10 = 0"
    by (simp add: bin_exp_def bit_len.simps)
  then have "float64_of_ratio 15 10 = Finite (3 / 2)"
    by (simp add: float64_of_ratio_def round_div_def pow2_def Let_def)
  with d show ?thesis
    by (simp add: ParseFloat_def lower_def)
qed

lemma ParseFloat_y: "ParseFloat ''100.5'' = Inr (Finite (201 / 2))"
proof -
  have d: "dec_literal ''100.5'' = Some (1005, 10)"
    by (simp add: dec_literal_def is_digit_def digits_val_def)
  have "bin_exp 1005 10 = 6"
    by (simp add: bin_exp_def bit_len.simps)
  then have "float64_of_ratio 1005 10 = Finite (201 / 2)"
    by (simp add: float64_of_ratio_def round_div_def pow2_def Let_def)
  with d show ?thesis
    by (simp add: ParseFloat_def lower_def)
qed

text \<open>
  The library models on further inputs: white space beyond ASCII, a decimal that is
  not a binary fraction (rounded as the library rounds it), the decimal of
  \<open>SouthernmostPoint\<close> (which parses to the constant itself), special values and
  malformed numbers.
\<close>

lemma TrimSpace_unicode:
  "TrimSpace [CHR 0xC2, CHR 0xA0, CHR ''1'', CHR '' '', CHR ''2'', CHR 0xE3, CHR 0x80, CHR 0x80,
      CHR 0x09] = ''1 2''"
  by (simp add: TrimSpace_def trim_lead.simps lead_len_def starts_with_def space_runes_def)

lemma ParseFloat_rounds:
  "ParseFloat ''0.1'' = Inr (Finite (3602879701896397 / 36028797018963968))"
proof -
  have d: "dec_literal ''0.1'' = Some (1, 10)"
    by (simp add: dec_literal_def is_digit_def digits_val_def)
  have "bin_exp 1 10 = - 4"
    by (simp add: bin_exp_def bit_len.simps)
  then have "float64_of_ratio 1 10 = Finite (3602879701896397 / 36028797018963968)"
    by (simp add: float64_of_ratio_def round_div_def pow2_def Let_def)
  with d show ?thesis
    by (simp add: ParseFloat_def lower_def)
qed

lemma ParseFloat_south: "ParseFloat ''94.972778'' = Inr SouthernmostPoint"
proof -
  have d: "dec_literal ''94.972778'' = Some (94972778, 1000000)"
    by (simp add: dec_literal_def is_digit_def digits_val_def)
  then show ?thesis
    by (simp add: ParseFloat_def lower_def SouthernmostPoint_def [symmetric]
        SouthernmostPoint_value)
qed

lemma ParseFloat_special:
  "ParseFloat ''-Infinity'' = Inr NInf" "ParseFloat ''+inf'' = Inr PInf"
  "ParseFloat ''nan'' = Inr NaN" "ParseFloat ''+nan'' = Inl ErrSyntax"
  "ParseFloat ''1.5.2'' = Inl ErrSyntax" "ParseFloat ''.'' = Inl ErrSyntax"
  by (simp_all add: ParseFloat_def lower_def dec_literal_def is_digit_def)

subsection \<open>Comparisons and splitting\<close>

lemma fle_not_flt: "fle a b \<Longrightarrow> \<not> flt b a"
  by (cases a; cases b) auto

lemma not_fle_iff: "a \<noteq> NaN \<Longrightarrow> b \<noteq> NaN \<Longrightarrow> (\<not> fle a b) = flt b a"
  by (cases a; cases b) auto

lemma south_of_west: "fle SouthernmostPoint v \<Longrightarrow> fle v WesternmostPoint \<Longrightarrow> False"
  by (cases v) (simp_all add: bounds_value)

lemma Split_nonempty: "Split s sep \<noteq> []"
  by (induction s) (auto split: list.splits)

lemma Split_length: "length (Split s sep) = Suc (length (filter (\<lambda>c. c = sep) s))"
  by (induction s) (auto split: list.splits)

subsection \<open>The coordinate parser\<close>

text \<open>
  C3. When the input splits at commas into exactly two parts, both parts (trimmed) parse
  as floats \<open>x\<close> and \<open>y\<close>, and the pair lies inside the bounding box
  (\<open>SouthernmostPoint \<le> y \<le> NorthernmostPoint\<close> and
  \<open>EasternmostPoint \<le> x \<le> WesternmostPoint\<close>), \<open>getLatLong\<close> succeeds and returns
  exactly the parsed pair: the values \<open>ParseFloat\<close> gave, unchanged. This holds for
  every parsing function. None of the three rejected strings can satisfy the
  hypotheses: the empty string has one part, and the two parts of the bare comma and of
  the sentinel are equal, while no number is both north of \<open>SouthernmostPoint\<close> and
  below \<open>WesternmostPoint\<close>.
\<close>

theorem getLatLong_in_box:
  assumes parts: "Split s CHR '','' = [a, b]"
    and px: "pf (TrimSpace a) = Inr x"
    and py: "pf (TrimSpace b) = Inr y"
    and ys: "fle SouthernmostPoint y" and yn: "fle y NorthernmostPoint"
    and xe: "fle EasternmostPoint x" and xw: "fle x WesternmostPoint"
  shows "getLatLong pf s = Inr (x, y)"
proof -
  have same: "a = b \<Longrightarrow> False"
  proof -
    assume "a = b"
    with px py have "x = y" by simp
    with ys xw show False by (auto dest: south_of_west)
  qed
  have guards: "s \<noteq> []" "s \<noteq> '',''" "s \<noteq> ''-999,-999''"
    using parts same by auto
  have "\<not> (flt y SouthernmostPoint \<or> flt NorthernmostPoint y
            \<or> flt WesternmostPoint x \<or> flt x EasternmostPoint)"
    using ys yn xe xw by (auto dest: fle_not_flt)
  with guards parts px py show ?thesis
    by (simp add: getLatLong_def)
qed

theorem getLatLong_in_box_witness:
  "Split ''1.5,100.5'' CHR '','' = [''1.5'', ''100.5'']
   \<and> ParseFloat (TrimSpace ''1.5'') = Inr (Finite (3 / 2))
   \<and> ParseFloat (TrimSpace ''100.5'') = Inr (Finite (201 / 2))
   \<and> fle SouthernmostPoint (Finite (201 / 2)) \<and> fle (Finite (201 / 2)) NorthernmostPoint
   \<and> fle EasternmostPoint (Finite (3 / 2)) \<and> fle (Finite (3 / 2)) WesternmostPoint
   \<and> getLatLong ParseFloat ''1.5,100.5'' = Inr (Finite (3 / 2), Finite (201 / 2))"
proof -
  have p: "Split ''1.5,100.5'' CHR '','' = [''1.5'', ''100.5'']" by simp
  have x: "ParseFloat (TrimSpace ''1.5'') = Inr (Finite (3 / 2))"
    by (simp add: ParseFloat_x)
  have y: "ParseFloat (TrimSpace ''100.5'') = Inr (Finite (201 / 2))"
    by (simp add: ParseFloat_y)
  have b: "fle SouthernmostPoint (Finite (201 / 2))" "fle (Finite (201 / 2)) NorthernmostPoint"
    "fle EasternmostPoint (Finite (3 / 2))" "fle (Finite (3 / 2)) WesternmostPoint"
    by (simp_all add: bounds_value)
  from getLatLong_in_box [OF p x y b] p x y b show ?thesis by simp
qed

text \<open>
  Past the three rejected strings, an input of two parts that both parse is decided
  by the range check alone.
\<close>

lemma getLatLong_two_parts:
  assumes "s \<noteq> '',''" "s \<noteq> ''-999,-999''" "Split s CHR '','' = [a, b]"
    "pf (TrimSpace a) = Inr x" "pf (TrimSpace b) = Inr y"
  shows "getLatLong pf s =
     (if flt y SouthernmostPoint \<or> flt NorthernmostPoint y
         \<or> flt WesternmostPoint x \<or> flt x EasternmostPoint
      then Inl ErrLatLongOutOfRange else Inr (x, y))"
proof -
  from assms(3) have "s \<noteq> []" by auto
  with assms show ?thesis by (simp add: getLatLong_def)
qed

text \<open>
  C4, as stated, fails at the sentinel. \<^verbatim>\<open>"-999,-999"\<close> splits into exactly two
  parts, both parse as the float \<open>-999\<close>, and \<open>y = -999\<close> lies outside
  \<open>[SouthernmostPoint, NorthernmostPoint]\<close>; yet the guard at line 140 answers
  \<open>ErrLatLong\<close> before anything is parsed, so the error is not
  \<open>ErrLatLongOutOfRange\<close>.
\<close>

theorem getLatLong_sentinel_not_out_of_range:
  "Split ''-999,-999'' CHR '','' = [''-999'', ''-999'']
   \<and> ParseFloat (TrimSpace ''-999'') = Inr (Finite (- 999))
   \<and> \<not> (fle SouthernmostPoint (Finite (- 999)) \<and> fle (Finite (- 999)) NorthernmostPoint)
   \<and> getLatLong ParseFloat ''-999,-999'' = Inl ErrLatLong
   \<and> getLatLong ParseFloat ''-999,-999'' \<noteq> Inl ErrLatLongOutOfRange"
  by (simp add: ParseFloat_sentinel bounds_value getLatLong_def)

text \<open>
  C4, amended. For every input other than the sentinel \<^verbatim>\<open>"-999,-999"\<close> that splits
  into exactly two parts, both parsing as floats other than NaN, \<open>getLatLong\<close> fails
  with \<open>ErrLatLongOutOfRange\<close> exactly when \<open>y\<close> lies outside
  \<open>[SouthernmostPoint, NorthernmostPoint]\<close> or \<open>x\<close> is greater than
  \<open>WesternmostPoint\<close> or less than \<open>EasternmostPoint\<close>. The bare comma is excluded
  too: its two parts are empty and the library parses no empty string, which a
  theorem about every parsing function has to say.
\<close>

theorem getLatLong_out_of_range_iff:
  assumes "s \<noteq> ''-999,-999''" and "s \<noteq> '',''"
    and "Split s CHR '','' = [a, b]"
    and "pf (TrimSpace a) = Inr x" and "pf (TrimSpace b) = Inr y"
    and "x \<noteq> NaN" and "y \<noteq> NaN"
  shows "getLatLong pf s = Inl ErrLatLongOutOfRange \<longleftrightarrow>
     \<not> (fle SouthernmostPoint y \<and> fle y NorthernmostPoint)
       \<or> flt WesternmostPoint x \<or> flt x EasternmostPoint"
proof -
  have "SouthernmostPoint \<noteq> NaN" "NorthernmostPoint \<noteq> NaN"
    by (simp_all add: bounds_value)
  with assms(7) have "(\<not> (fle SouthernmostPoint y \<and> fle y NorthernmostPoint)) =
      (flt y SouthernmostPoint \<or> flt NorthernmostPoint y)"
    by (simp add: not_fle_iff)
  then show ?thesis
    using getLatLong_two_parts [OF assms(2) assms(1) assms(3) assms(4) assms(5)] by simp
qed

theorem getLatLong_out_of_range_iff_witness:
  "''-999, -999'' \<noteq> ''-999,-999'' \<and> ''-999, -999'' \<noteq> '',''
   \<and> Split ''-999, -999'' CHR '','' = [''-999'', '' -999'']
   \<and> ParseFloat (TrimSpace ''-999'') = Inr (Finite (- 999))
   \<and> ParseFloat (TrimSpace '' -999'') = Inr (Finite (- 999))
   \<and> Finite (- 999) \<noteq> NaN
   \<and> (getLatLong ParseFloat ''-999, -999'' = Inl ErrLatLongOutOfRange \<longleftrightarrow>
       \<not> (fle SouthernmostPoint (Finite (- 999)) \<and> fle (Finite (- 999)) NorthernmostPoint)
         \<or> flt WesternmostPoint (Finite (- 999)) \<or> flt (Finite (- 999)) EasternmostPoint)"
proof -
  have n: "''-999, -999'' \<noteq> ''-999,-999''" "''-999, -999'' \<noteq> '',''" by simp_all
  have p: "Split ''-999, -999'' CHR '','' = [''-999'', '' -999'']" by simp
  have x: "ParseFloat (TrimSpace ''-999'') = Inr (Finite (- 999))"
    and y: "ParseFloat (TrimSpace '' -999'') = Inr (Finite (- 999))"
    by (simp_all add: ParseFloat_sentinel)
  have f: "Finite (- 999) \<noteq> NaN" by simp
  from getLatLong_out_of_range_iff [OF n p x y f f] n p x y f show ?thesis by blast
qed

text \<open>
  C5. An input that is empty, is the bare comma, is the sentinel \<^verbatim>\<open>"-999,-999"\<close>, or
  does not split at commas into exactly two parts makes \<open>getLatLong\<close> fail with
  \<open>ErrLatLong\<close>, whatever the parsing function.
\<close>

theorem getLatLong_malformed:
  assumes "s = [] \<or> s = '','' \<or> s = ''-999,-999'' \<or> length (Split s CHR '','') \<noteq> 2"
  shows "getLatLong pf s = Inl ErrLatLong"
  using assms by (auto simp: getLatLong_def)

theorem getLatLong_malformed_witness:
  "length (Split ''1,2,3'' CHR '','') \<noteq> 2 \<and> getLatLong ParseFloat ''1,2,3'' = Inl ErrLatLong"
proof -
  have h: "length (Split ''1,2,3'' CHR '','') \<noteq> 2" by simp
  then have "''1,2,3'' = [] \<or> ''1,2,3'' = '','' \<or> ''1,2,3'' = ''-999,-999''
      \<or> length (Split ''1,2,3'' CHR '','') \<noteq> 2" by blast
  from getLatLong_malformed [OF this] h show ?thesis by blast
qed

text \<open>
  C7. The range check of line 159 is made of four comparisons, and every comparison
  with NaN is false: \<^verbatim>\<open>"NaN,NaN"\<close> passes the guards, both parts parse
  (\<open>ParseFloat\<close> accepts \<^verbatim>\<open>NaN\<close>), no comparison rejects the pair, and \<open>getLatLong\<close>
  succeeds with two values that are not finite and not within the bounds.
\<close>

theorem getLatLong_accepts_NaN:
  "getLatLong ParseFloat ''NaN,NaN'' = Inr (NaN, NaN)
   \<and> \<not> is_finite NaN
   \<and> \<not> (fle SouthernmostPoint NaN \<and> fle NaN NorthernmostPoint)"
  by (simp add: getLatLong_def ParseFloat_NaN bounds_value)

text \<open>
  What success does guarantee: none of the four comparisons holds, and so neither value
  is an infinity. Each value is a finite number within its bounds, or NaN.
\<close>

lemma getLatLong_success:
  assumes "getLatLong pf s = Inr (x, y)"
  shows "\<not> flt y SouthernmostPoint \<and> \<not> flt NorthernmostPoint y
     \<and> \<not> flt WesternmostPoint x \<and> \<not> flt x EasternmostPoint
     \<and> x \<noteq> PInf \<and> x \<noteq> NInf \<and> y \<noteq> PInf \<and> y \<noteq> NInf"
proof -
  from assms have c: "\<not> flt y SouthernmostPoint" "\<not> flt NorthernmostPoint y"
    "\<not> flt WesternmostPoint x" "\<not> flt x EasternmostPoint"
    by (auto simp: getLatLong_def Let_def split: if_splits sum.splits)
  then show ?thesis by (auto simp: bounds_value)
qed

text \<open>
  C9. The sentinel is rejected by comparing strings: \<^verbatim>\<open>"-999,-999"\<close> itself fails
  with \<open>ErrLatLong\<close>, while \<^verbatim>\<open>"-999, -999"\<close> and \<^verbatim>\<open>" -999,-999"\<close>, which denote
  the same pair, pass the guard, are trimmed and parsed, and fail with
  \<open>ErrLatLongOutOfRange\<close>.
\<close>

theorem getLatLong_sentinel_exact:
  "getLatLong ParseFloat ''-999,-999'' = Inl ErrLatLong
   \<and> getLatLong ParseFloat ''-999, -999'' = Inl ErrLatLongOutOfRange
   \<and> getLatLong ParseFloat '' -999,-999'' = Inl ErrLatLongOutOfRange"
  by (simp add: getLatLong_def ParseFloat_sentinel bounds_value)

subsection \<open>The row accumulator\<close>

text \<open>
  A run that returns has read every record, adding one to \<^verbatim>\<open>rowCount\<close> for each, and
  returns no error.
\<close>

lemma rows_loop_Return:
  "rows_loop pf limit mode a rows = Return r e \<Longrightarrow>
     rowCount r = rowCount a + int (length rows) \<and> e = None"
proof (induction rows arbitrary: a)
  case Nil
  then show ?case by auto
next
  case (Cons row rest)
  then show ?case
    by (fastforce simp: Let_def split: if_splits option.splits)
qed



text \<open>
  Without a limit every record after the header enters the branch.
\<close>

lemma rows_loop_unlimited:
  "- 1 \<le> rowCount a \<Longrightarrow> examined a = nat (rowCount a) \<Longrightarrow>
   examined (final (rows_loop pf 0 mode a rows)) = nat (rowCount (final (rows_loop pf 0 mode a rows)))"
proof (induction rows arbitrary: a)
  case Nil
  then show ?case by simp
next
  case (Cons row rest)
  let ?a1 = "a\<lparr>rowCount := rowCount a + 1\<rparr>"
  show ?case
  proof (cases "rowCount a = - 1")
    case True
    with Cons.prems Cons.IH [of ?a1] show ?thesis by (simp add: Let_def)
  next
    case False
    with Cons.prems have s: "Suc (examined a) = nat (rowCount a + 1)" by simp
    show ?thesis
    proof (cases "row_body pf mode row (ctx a)")
      case None
      with False s show ?thesis by (simp add: Let_def)
    next
      case (Some c)
      with False s Cons.prems
        Cons.IH [of "?a1\<lparr>ctx := c, examined := Suc (examined a)\<rparr>"]
      show ?thesis by (simp add: Let_def)
    qed
  qed
qed

lemma getLatLong_empty: "getLatLong pf [] = Inl ErrLatLong"
  by (simp add: getLatLong_def)

lemma row_body_blank13: "row_body pf mode (replicate 13 []) c = Some c"
  by (simp add: row_body_def index_def getLatLong_empty)

lemma row_body_blank10: "row_body pf mode (replicate 10 []) c = Some c"
  by (simp add: row_body_def index_def getLatLong_empty)



text \<open>
  C2, as stated, fails when the file is longer than the limit. With limit \<open>2\<close> and a
  header followed by five data rows, one data row is examined and the returned count
  is \<open>5\<close>: the loop has no exit at the limit, and \<^verbatim>\<open>rowCount\<close> counts every record
  read.
\<close>

theorem markLocations_count_beyond_limit:
  "rowCount (final (markLocations ParseFloat 2
       (Records [replicate 13 [], replicate 13 [], replicate 13 [], replicate 13 [],
                 replicate 13 [], replicate 13 []]) ''plot'')) = 5
   \<and> examined (final (markLocations ParseFloat 2
       (Records [replicate 13 [], replicate 13 [], replicate 13 [], replicate 13 [],
                 replicate 13 [], replicate 13 []]) ''plot'')) = 1"
  by (simp add: markLocations_def row_body_blank13)

text \<open>
  C2, amended. A run that returns gives as its row count the number of records read
  less one, that is the number of data rows of the file up to its end, for every limit
  and whatever the rows hold; with limit \<open>0\<close> and a file that has a header, that is the
  number of data rows examined.
\<close>

theorem markLocations_count:
  assumes "markLocations pf limit (Records rows) mode = Return r e"
  shows "rowCount r = int (length rows) - 1
     \<and> (limit = 0 \<and> rows \<noteq> [] \<longrightarrow> rowCount r = int (examined r))"
proof -
  let ?a0 = "\<lparr>ctx = SetSize 600 400 NewContext, rowCount = - 1, examined = 0\<rparr>"
  from assms have ret: "rows_loop pf limit mode ?a0 rows = Return r e"
    by (simp add: markLocations_def)
  then have c: "rowCount r = int (length rows) - 1"
    using rows_loop_Return [of pf limit mode ?a0 rows r e] by simp
  have "rowCount r = int (examined r)" if "limit = 0" "rows \<noteq> []"
  proof -
    have "examined (final (rows_loop pf 0 mode ?a0 rows)) =
        nat (rowCount (final (rows_loop pf 0 mode ?a0 rows)))"
      by (intro rows_loop_unlimited) simp_all
    with ret that have "examined r = nat (rowCount r)" by simp
    moreover from c that have "0 \<le> rowCount r" by (cases rows) simp_all
    ultimately show ?thesis by simp
  qed
  with c show ?thesis by blast
qed

theorem markLocations_count_witness:
  "markLocations ParseFloat 0 (Records [replicate 13 [], replicate 13 [], replicate 13 []])
       ''line'' =
     Return \<lparr>ctx = SetSize 600 400 NewContext, rowCount = 2, examined = 2\<rparr> None
   \<and> rowCount \<lparr>ctx = SetSize 600 400 NewContext, rowCount = 2, examined = 2\<rparr> =
       int (length [replicate 13 ([]::string), replicate 13 [], replicate 13 []]) - 1
   \<and> [replicate 13 ([]::string), replicate 13 [], replicate 13 []] \<noteq> []
   \<and> rowCount \<lparr>ctx = SetSize 600 400 NewContext, rowCount = 2, examined = 2\<rparr> =
       int (examined \<lparr>ctx = SetSize 600 400 NewContext, rowCount = 2, examined = 2\<rparr>)"
proof -
  have h: "markLocations ParseFloat 0
      (Records [replicate 13 [], replicate 13 [], replicate 13 []]) ''line'' =
     Return \<lparr>ctx = SetSize 600 400 NewContext, rowCount = 2, examined = 2\<rparr> None"
    by (simp add: markLocations_def row_body_blank13)
  from markLocations_count [OF h] h show ?thesis by simp
qed

text \<open>
  C10. On a file with no record at all \<open>markLocations\<close> succeeds with the row count
  \<open>-1\<close>: the count starts at \<open>-1\<close> and is incremented once for each record read, the
  header included, so a file with a header alone gives \<open>0\<close>.
\<close>

theorem markLocations_no_rows:
  "markLocations pf limit (Records []) mode =
     Return \<lparr>ctx = SetSize 600 400 NewContext, rowCount = - 1, examined = 0\<rparr> None
   \<and> markLocations pf limit (Records [header]) mode =
     Return \<lparr>ctx = SetSize 600 400 NewContext, rowCount = 0, examined = 0\<rparr> None"
  by (simp add: markLocations_def)

lemma row_body_origin_fails:
  "9 < length row \<Longrightarrow> isl (getLatLong pf (row ! 9)) \<Longrightarrow> row_body pf mode row c = Some c"
  by (auto simp: row_body_def index_def isl_def)

lemma row_body_destination_fails:
  "12 < length row \<Longrightarrow> isl (getLatLong pf (row ! 12)) \<Longrightarrow> row_body pf mode row c = Some c"
  by (auto simp: row_body_def index_def isl_def split: sum.splits)

lemma row_body_short:
  "length row < 13 \<Longrightarrow>
   row_body pf mode row c =
     (if length row \<le> 9 then None
      else if isl (getLatLong pf (row ! 9)) then Some c else None)"
  by (auto simp: row_body_def index_def isl_def split: sum.splits)

text \<open>
  One turn of the loop on an examined record.
\<close>

lemma rows_loop_examined_row:
  "rowCount a + 1 \<noteq> 0 \<Longrightarrow> limit = 0 \<or> rowCount a + 1 < limit \<Longrightarrow>
   rows_loop pf limit mode a (row # rest) =
     (case row_body pf mode row (ctx a) of
        None \<Rightarrow> Panic (a\<lparr>rowCount := rowCount a + 1, examined := Suc (examined a)\<rparr>)
      | Some c \<Rightarrow>
          rows_loop pf limit mode
            (a\<lparr>rowCount := rowCount a + 1, ctx := c, examined := Suc (examined a)\<rparr>) rest)"
  by (simp add: Let_def split: option.splits)

text \<open>
  C6. For an examined row whose origin field (index 9) or destination field (index 12)
  fails to parse, the body leaves the context as it is (no marker and no path, also
  when the origin parsed and only the destination failed), the run does not panic at
  this row and goes on with the rest of the file, and no run over records returns an
  error.
\<close>

theorem failed_row_skipped:
  assumes "rowCount a + 1 \<noteq> 0" and "limit = 0 \<or> rowCount a + 1 < limit"
    and "(9 < length row \<and> isl (getLatLong pf (row ! 9)))
         \<or> (12 < length row \<and> isl (getLatLong pf (row ! 12)))"
  shows "row_body pf mode row (ctx a) = Some (ctx a)
     \<and> rows_loop pf limit mode a (row # rest) =
         rows_loop pf limit mode
           (a\<lparr>rowCount := rowCount a + 1, examined := Suc (examined a)\<rparr>) rest
     \<and> (\<forall>rows r e. markLocations pf limit (Records rows) mode = Return r e \<longrightarrow> e = None)"
proof -
  from assms(3) have b: "row_body pf mode row (ctx a) = Some (ctx a)"
    by (auto simp: row_body_origin_fails row_body_destination_fails)
  have "a\<lparr>rowCount := rowCount a + 1, ctx := ctx a, examined := Suc (examined a)\<rparr> =
      a\<lparr>rowCount := rowCount a + 1, examined := Suc (examined a)\<rparr>"
    by simp
  with b have l: "rows_loop pf limit mode a (row # rest) =
         rows_loop pf limit mode
           (a\<lparr>rowCount := rowCount a + 1, examined := Suc (examined a)\<rparr>) rest"
    by (simp add: rows_loop_examined_row [OF assms(1) assms(2)] del: rows_loop.simps)
  have "e = None" if "markLocations pf limit (Records rows) mode = Return r e" for rows r e
    using that rows_loop_Return [of pf limit mode _ rows r e] by (simp add: markLocations_def)
  with b l show ?thesis by blast
qed

theorem failed_row_skipped_witness:
  "rowCount \<lparr>ctx = NewContext, rowCount = 0, examined = 0\<rparr> + 1 \<noteq> 0
   \<and> 12 < length [[], [], [], [], [], [], [], [], [], ''1.5,100.5'', [], [], ''abc,12.0'']
   \<and> isl (getLatLong ParseFloat
        ([[], [], [], [], [], [], [], [], [], ''1.5,100.5'', [], [], ''abc,12.0''] ! 12))
   \<and> row_body ParseFloat ''line''
        [[], [], [], [], [], [], [], [], [], ''1.5,100.5'', [], [], ''abc,12.0'']
        NewContext = Some NewContext
   \<and> rows_loop ParseFloat 0 ''line'' \<lparr>ctx = NewContext, rowCount = 0, examined = 0\<rparr>
        [[[], [], [], [], [], [], [], [], [], ''1.5,100.5'', [], [], ''abc,12.0'']] =
       Return \<lparr>ctx = NewContext, rowCount = 1, examined = 1\<rparr> None
   \<and> markLocations ParseFloat 0
        (Records
           [replicate 13 [],
            [[], [], [], [], [], [], [], [], [], ''1.5,100.5'', [], [], ''abc,12.0'']])
        ''line'' =
       Return \<lparr>ctx = SetSize 600 400 NewContext, rowCount = 1, examined = 1\<rparr> None"
proof -
  let ?row = "[[], [], [], [], [], [], [], [], [], ''1.5,100.5'', [], [], ''abc,12.0'']"
  let ?a = "\<lparr>ctx = NewContext, rowCount = 0, examined = 0\<rparr>"
  have t: "TrimSpace ''abc'' = ''abc''"
    by (simp add: TrimSpace_def trim_lead.simps lead_len_def starts_with_def space_runes_def)
  have "dec_literal ''abc'' = None"
    by (simp add: dec_literal_def is_digit_def)
  then have p: "ParseFloat ''abc'' = Inl ErrSyntax"
    by (simp add: ParseFloat_def lower_def)
  have g: "getLatLong ParseFloat ''abc,12.0'' = Inl (NumError ErrSyntax)"
    by (simp add: getLatLong_def t p)
  have h1: "rowCount ?a + 1 \<noteq> 0" by simp
  have h2: "(0::int) = 0 \<or> rowCount ?a + 1 < 0" by simp
  have h3: "12 < length ?row" by simp
  have h4: "isl (getLatLong ParseFloat (?row ! 12))" by (simp add: g)
  from h3 h4 have h: "(9 < length ?row \<and> isl (getLatLong ParseFloat (?row ! 9)))
         \<or> (12 < length ?row \<and> isl (getLatLong ParseFloat (?row ! 12)))" by blast
  have x: "getLatLong ParseFloat ''1.5,100.5'' = Inr (Finite (3 / 2), Finite (201 / 2))"
    by (simp add: getLatLong_def ParseFloat_x ParseFloat_y bounds_value)
  have run: "markLocations ParseFloat 0 (Records [replicate 13 [], ?row]) ''line'' =
      Return \<lparr>ctx = SetSize 600 400 NewContext, rowCount = 1, examined = 1\<rparr> None"
    by (simp add: markLocations_def row_body_def index_def x g)
  from failed_row_skipped [OF h1 h2 h, of "''line''" "[]"] h1 h3 h4 run show ?thesis by simp
qed

text \<open>
  C8, as stated, fails for a row of 10 to 12 fields whose origin does not parse: the
  \<^verbatim>\<open>continue\<close> of line 112 comes before \<^verbatim>\<open>record[12]\<close> is read. A file whose
  header and single data row have 10 empty fields is read to its end without a panic,
  the row examined and skipped.
\<close>

theorem short_row_skipped:
  "markLocations ParseFloat 0 (Records [replicate 10 [], replicate 10 []]) ''plot'' =
     Return \<lparr>ctx = SetSize 600 400 NewContext, rowCount = 1, examined = 1\<rparr> None
   \<and> length (replicate 10 ([]::string)) < 13"
  by (simp add: markLocations_def row_body_blank10)

text \<open>
  C8, amended. An examined row with fewer than 10 fields panics at \<^verbatim>\<open>record[9]\<close>; an
  examined row with 10 to 12 fields panics at \<^verbatim>\<open>record[12]\<close> exactly when its
  origin field parses, and is skipped without a panic when the origin fails to parse.
\<close>

theorem short_row_panics:
  assumes "rowCount a + 1 \<noteq> 0" and "limit = 0 \<or> rowCount a + 1 < limit"
    and "length row < 13"
  shows "rows_loop pf limit mode a (row # rest) =
     (if length row \<le> 9
      then Panic (a\<lparr>rowCount := rowCount a + 1, examined := Suc (examined a)\<rparr>)
      else if isl (getLatLong pf (row ! 9))
      then rows_loop pf limit mode
             (a\<lparr>rowCount := rowCount a + 1, examined := Suc (examined a)\<rparr>) rest
      else Panic (a\<lparr>rowCount := rowCount a + 1, examined := Suc (examined a)\<rparr>))"
proof -
  have "a\<lparr>rowCount := rowCount a + 1, ctx := ctx a, examined := Suc (examined a)\<rparr> =
      a\<lparr>rowCount := rowCount a + 1, examined := Suc (examined a)\<rparr>"
    by simp
  then show ?thesis
    by (simp add: rows_loop_examined_row [OF assms(1) assms(2)] row_body_short [OF assms(3)]
        del: rows_loop.simps)
qed

theorem short_row_panics_witness:
  "rowCount \<lparr>ctx = NewContext, rowCount = 0, examined = 0\<rparr> + 1 \<noteq> 0
   \<and> length [[], [], [], [], [], [], [], [], [], ''1.5,100.5''] < 13
   \<and> rows_loop ParseFloat 0 ''plot'' \<lparr>ctx = NewContext, rowCount = 0, examined = 0\<rparr>
        [[[], [], [], [], [], [], [], [], [], ''1.5,100.5''], []] =
       Panic \<lparr>ctx = NewContext, rowCount = 1, examined = 1\<rparr>"
proof -
  let ?row = "[[], [], [], [], [], [], [], [], [], ''1.5,100.5'']"
  let ?a = "\<lparr>ctx = NewContext, rowCount = 0, examined = 0\<rparr>"
  have h1: "rowCount ?a + 1 \<noteq> 0" by simp
  have h2: "(0::int) = 0 \<or> rowCount ?a + 1 < 0" by simp
  have h3: "length ?row < 13" by simp
  have g: "getLatLong ParseFloat ''1.5,100.5'' = Inr (Finite (3 / 2), Finite (201 / 2))"
    by (simp add: getLatLong_def ParseFloat_x ParseFloat_y bounds_value)
  from short_row_panics [OF h1 h2 h3, of ParseFloat "''plot''" "[[]]"] g h1 h3
  show ?thesis by simp
qed

text \<open>
  A run of the whole model: a header, a row with valid coordinates in both fields and a
  row with the sentinel as origin give two markers, no path in plot mode, and the row
  count \<open>2\<close>.
\<close>

lemma scenario_valid_then_sentinel:
  "markLocations ParseFloat 0
     (Records
        [replicate 13 [],
         [[], [], [], [], [], [], [], [], [], ''1.5,100.5'', [], [], ''1.5,100.5''],
         [[], [], [], [], [], [], [], [], [], ''-999,-999'', [], [], ''1.5,100.5'']])
     ''plot'' =
   Return
     \<lparr>ctx = \<lparr>width = 600, height = 400,
          markers =
            [NewMarker (LatLngFromDegrees (Finite (3 / 2)) (Finite (201 / 2)))
               (RGBA 0 255 0 255) (Finite 4),
             NewMarker (LatLngFromDegrees (Finite (3 / 2)) (Finite (201 / 2)))
               (RGBA 255 0 0 255) (Finite 4)],
          paths = []\<rparr>,
      rowCount = 2, examined = 2\<rparr> None"
proof -
  have g: "getLatLong ParseFloat ''1.5,100.5'' = Inr (Finite (3 / 2), Finite (201 / 2))"
    by (simp add: getLatLong_def ParseFloat_x ParseFloat_y bounds_value)
  have s: "getLatLong ParseFloat ''-999,-999'' = Inl ErrLatLong"
    by (simp add: getLatLong_def)
  show ?thesis
    by (simp add: markLocations_def row_body_def index_def g s SetSize_def NewContext_def
        AddMarker_def)
qed

end
